theory Spec2Isabelle
  imports Complex_Main "HOL-Library.Word"
begin

section \<open>Coordinate conversions for TMS tile pyramids\<close>

text \<open>
  A shallow embedding of the two Go packages \<^verbatim>\<open>Mercator\<close> (GlobalMercator.go) and
  \<^verbatim>\<open>Geodetic\<close>. Both packages declare a field \<^verbatim>\<open>tileSize\<close> and methods
  \<^verbatim>\<open>Resolution\<close>, \<^verbatim>\<open>PixelsToTile\<close> and \<^verbatim>\<open>TileBounds\<close>; the methods carry the package
  name as a prefix here, and the records qualify the field.

  Numbers.
  \<^item> \<^verbatim>\<open>float64\<close> is read as \<^typ>\<open>real\<close>: \<^verbatim>\<open>math.Pi\<close> is \<^term>\<open>pi\<close>, \<^verbatim>\<open>math.Log\<close> is
    \<^term>\<open>ln\<close>, \<^verbatim>\<open>math.Pow(2, x)\<close> is \<^term>\<open>2 powr x\<close>, \<^verbatim>\<open>math.Ceil\<close> is the ceiling.
    Rounding, infinities and NaN have no counterpart, so the embedding speaks about a
    profile only where no division by zero occurs (\<^verbatim>\<open>tileSize\<close> not 0).
  \<^item> Two places produce a \<^verbatim>\<open>float64\<close> from whole numbers, and there the rounding is
    written out: \<^verbatim>\<open>float64(tileSize)\<close> of an \<^verbatim>\<open>int64\<close>, and \<^verbatim>\<open>math.Ceil(x) - 1\<close>.
    A \<^verbatim>\<open>float64\<close> holds every integer up to \<open>2 ^ 53\<close> in magnitude; a larger one is
    rounded to 53 significant bits, ties to even.
  \<^item> \<^verbatim>\<open>zoom int64\<close> is read as \<^typ>\<open>int\<close>: the code only converts it
    (\<^verbatim>\<open>float64(zoom)\<close>, \<^verbatim>\<open>uint(zoom)\<close>) and never computes with it.
  \<^item> The results of \<^verbatim>\<open>int64(x)\<close> and \<^verbatim>\<open>uint(x)\<close> on a \<^verbatim>\<open>float64\<close> are 64-bit
    words (\<^verbatim>\<open>uint\<close> on a 64-bit target). Go discards the fraction; where the truncated
    value does not fit the type the language leaves the result to the implementation,
    which is the value \<^term>\<open>None\<close> here.
\<close>

subsection \<open>Integers in float64\<close>

text \<open>
  The \<^verbatim>\<open>float64\<close> nearest to an integer (magnitudes below \<open>2 ^ 1024\<close>):
  \<open>excess_bits a\<close> is the number \<open>e\<close> of low bits of the magnitude \<open>a\<close> that do not
  fit 53 bits, \<open>r\<close> is their value, and \<open>q\<close> the 53 bits kept.
\<close>

function excess_bits :: "nat \<Rightarrow> nat" where
  "excess_bits a = (if a < 2 ^ 53 then 0 else Suc (excess_bits (a div 2)))"
  by pat_completeness auto
termination
  by (relation "measure (\<lambda>a. a)") auto

definition round_f64_int :: "int \<Rightarrow> int" where
  "round_f64_int n =
     (if \<bar>n\<bar> \<le> 2 ^ 53 then n
      else (let e = excess_bits (nat \<bar>n\<bar>);
                q = \<bar>n\<bar> div 2 ^ e;
                r = \<bar>n\<bar> mod 2 ^ e;
                q' = (if 2 ^ e < 2 * r \<or> (2 * r = 2 ^ e \<and> odd q) then q + 1 else q)
            in sgn n * (q' * 2 ^ e)))"

definition f64_of_int :: "int \<Rightarrow> real" where
  "f64_of_int n = real_of_int (round_f64_int n)"


subsection \<open>Conversions from float64 to machine integers\<close>

type_synonym int64 = "64 word"  \<comment> \<open>read with \<^term>\<open>sint\<close>\<close>
type_synonym uint = "64 word"  \<comment> \<open>read with \<^term>\<open>unat\<close>\<close>

definition trunc :: "real \<Rightarrow> int" where
  "trunc x = (if 0 \<le> x then \<lfloor>x\<rfloor> else \<lceil>x\<rceil>)"

definition in_int64 :: "int \<Rightarrow> bool" where
  "in_int64 n \<longleftrightarrow> - (2 ^ 63) \<le> n \<and> n < 2 ^ 63"

definition in_uint :: "int \<Rightarrow> bool" where
  "in_uint n \<longleftrightarrow> 0 \<le> n \<and> n < 2 ^ 64"

definition float64_to_int64 :: "real \<Rightarrow> int64 option" where
  "float64_to_int64 x =
     (if in_int64 (trunc x) then Some (word_of_int (trunc x)) else None)"

definition float64_to_uint :: "real \<Rightarrow> uint option" where
  "float64_to_uint x =
     (if in_uint (trunc x) then Some (word_of_int (trunc x)) else None)"


subsection \<open>Package Mercator\<close>

record GlobalMercator =
  tileSize :: real
  initialResolution :: real
  originShift :: real

definition NewGlobalMercator :: "real \<Rightarrow> GlobalMercator" where
  "NewGlobalMercator ts =
     \<lparr> tileSize = ts,
       initialResolution = 2 * pi * 6378137 / ts,
       originShift = 2 * pi * 6378137 / 2 \<rparr>"

definition Mercator_Resolution :: "GlobalMercator \<Rightarrow> int \<Rightarrow> real" where
  "Mercator_Resolution this zoom = initialResolution this / 2 powr (real_of_int zoom)"

definition LatLonToMeters :: "GlobalMercator \<Rightarrow> real \<Rightarrow> real \<Rightarrow> real \<times> real" where
  "LatLonToMeters this lat lon =
     (let mx = lon * originShift this / 180;
          my = ln (tan ((90 + lat) * pi / 360)) / (pi / 180);
          my' = my * originShift this / 180
      in (mx, my'))"

definition MetersToLatLon :: "GlobalMercator \<Rightarrow> real \<Rightarrow> real \<Rightarrow> real \<times> real" where
  "MetersToLatLon this mx my =
     (let lon = (mx / originShift this) * 180;
          lat = (my / originShift this) * 180;
          lat' = 180 / pi * (2 * arctan (exp (lat * pi / 180)) - pi / 2)
      in (lat', lon))"

definition PixelsToMeters :: "GlobalMercator \<Rightarrow> real \<Rightarrow> real \<Rightarrow> int \<Rightarrow> real \<times> real" where
  "PixelsToMeters this px py zoom =
     (let res = Mercator_Resolution this zoom;
          mx = px * res - originShift this;
          my = py * res - originShift this
      in (mx, my))"

definition MetersToPixels :: "GlobalMercator \<Rightarrow> real \<Rightarrow> real \<Rightarrow> int \<Rightarrow> real \<times> real" where
  "MetersToPixels this mx my zoom =
     (let res = Mercator_Resolution this zoom;
          px = (mx + originShift this) / res;
          py = (my + originShift this) / res
      in (px, py))"

text \<open>
  \<^verbatim>\<open>px / tileSize\<close> with \<^verbatim>\<open>tileSize\<close> 0 is an infinity or NaN, whose conversion to
  \<^verbatim>\<open>int64\<close> is left to the implementation. \<^verbatim>\<open>math.Ceil(px/tileSize) - 1\<close> is a
  \<^verbatim>\<open>float64\<close> subtraction of two whole numbers: the difference, rounded.
\<close>

definition Mercator_PixelsToTile ::
  "GlobalMercator \<Rightarrow> real \<Rightarrow> real \<Rightarrow> int64 option \<times> int64 option" where
  "Mercator_PixelsToTile this px py =
     (if GlobalMercator.tileSize this = 0 then (None, None)
      else (float64_to_int64 (f64_of_int (\<lceil>px / GlobalMercator.tileSize this\<rceil> - 1)),
            float64_to_int64 (f64_of_int (\<lceil>py / GlobalMercator.tileSize this\<rceil> - 1))))"

text \<open>
  \<^verbatim>\<open>uint(zoom)\<close> keeps the 64 bits of \<^verbatim>\<open>zoom\<close>; a shift of a \<^verbatim>\<open>uint\<close> drops the bits
  pushed beyond bit 63, and a count of 64 or more leaves 0. The raster Y is
  \<^term>\<open>None\<close> where \<^verbatim>\<open>uint(tileSize)\<close> is left to the implementation; X is returned
  as it came.
\<close>

definition PixelsToRaster :: "GlobalMercator \<Rightarrow> real \<Rightarrow> real \<Rightarrow> int \<Rightarrow> real \<times> real option" where
  "PixelsToRaster this px py zoom =
     (let mapSize = map_option (push_bit (unat (word_of_int zoom :: uint)))
                      (float64_to_uint (GlobalMercator.tileSize this))
      in (px, map_option (\<lambda>m. real (unat m) - py) mapSize))"

definition MetersToTile ::
  "GlobalMercator \<Rightarrow> real \<Rightarrow> real \<Rightarrow> int \<Rightarrow> int64 option \<times> int64 option" where
  "MetersToTile this mx my zoom =
     (case MetersToPixels this mx my zoom of (px, py) \<Rightarrow> Mercator_PixelsToTile this px py)"

definition Mercator_TileBounds ::
  "GlobalMercator \<Rightarrow> real \<Rightarrow> real \<Rightarrow> int \<Rightarrow> real \<times> real \<times> real \<times> real" where
  "Mercator_TileBounds this tx ty zoom =
     (let ts = GlobalMercator.tileSize this
      in case PixelsToMeters this (tx * ts) (ty * ts) zoom of
           (minx, miny) \<Rightarrow>
             (case PixelsToMeters this ((tx + 1) * ts) ((ty + 1) * ts) zoom of
                (maxx, maxy) \<Rightarrow> (minx, miny, maxx, maxy)))"

definition TileLatLonBounds ::
  "GlobalMercator \<Rightarrow> real \<Rightarrow> real \<Rightarrow> int \<Rightarrow> real \<times> real \<times> real \<times> real" where
  "TileLatLonBounds this tx ty zoom =
     (case Mercator_TileBounds this tx ty zoom of
        (minx, miny, maxx, maxy) \<Rightarrow>
          (case MetersToLatLon this minx miny of
             (minLat, minLon) \<Rightarrow>
               (case MetersToLatLon this maxx maxy of
                  (maxLat, maxLon) \<Rightarrow> (minLat, minLon, maxLat, maxLon))))"

text \<open>
  The loop of \<^verbatim>\<open>ZoomForPixelSize\<close> runs \<^verbatim>\<open>i\<close> from 0 to 29. The function has no
  \<^verbatim>\<open>return\<close> after the loop: leaving the loop yields no value, which is \<^term>\<open>None\<close>.
\<close>

function ZoomForPixelSize_loop :: "GlobalMercator \<Rightarrow> real \<Rightarrow> int \<Rightarrow> int option" where
  "ZoomForPixelSize_loop this pixelSize i =
     (if i < 30 then
        (if pixelSize > Mercator_Resolution this i then
           (if i \<noteq> 0 then Some 0 else Some (i - 1))
         else ZoomForPixelSize_loop this pixelSize (i + 1))
      else None)"
  by pat_completeness auto
termination
  by (relation "measure (\<lambda>(this, pixelSize, i). nat (30 - i))") auto

definition ZoomForPixelSize :: "GlobalMercator \<Rightarrow> real \<Rightarrow> int option" where
  "ZoomForPixelSize this pixelSize = ZoomForPixelSize_loop this pixelSize 0"

subsection \<open>Package Geodetic\<close>

record GlobalGeodetic =
  tileSize :: real

text \<open>\<^verbatim>\<open>tileSize int64\<close> is read as \<^typ>\<open>int\<close>; the field holds \<^verbatim>\<open>float64(tileSize)\<close>.\<close>

definition NewGlobalGeodetic :: "int \<Rightarrow> GlobalGeodetic" where
  "NewGlobalGeodetic ts = \<lparr> tileSize = f64_of_int ts \<rparr>"

definition LatLonToPixels :: "GlobalGeodetic \<Rightarrow> real \<Rightarrow> real \<Rightarrow> int \<Rightarrow> real \<times> real" where
  "LatLonToPixels this lat lon zoom =
     (let res = 180 / 256 / 2 powr (real_of_int zoom);
          px = (180 + lat) / res;
          py = (90 + lon) / res
      in (px, py))"

definition Geodetic_PixelsToTile ::
  "GlobalGeodetic \<Rightarrow> real \<Rightarrow> real \<Rightarrow> int64 option \<times> int64 option" where
  "Geodetic_PixelsToTile this px py =
     (if GlobalGeodetic.tileSize this = 0 then (None, None)
      else (float64_to_int64 (f64_of_int (\<lceil>px / GlobalGeodetic.tileSize this\<rceil> - 1)),
            float64_to_int64 (f64_of_int (\<lceil>py / GlobalGeodetic.tileSize this\<rceil> - 1))))"

definition Geodetic_Resolution :: "GlobalGeodetic \<Rightarrow> int \<Rightarrow> real" where
  "Geodetic_Resolution this zoom = 180 / 256 / 2 powr (real_of_int zoom)"

definition Geodetic_TileBounds ::
  "GlobalGeodetic \<Rightarrow> real \<Rightarrow> real \<Rightarrow> int \<Rightarrow> real \<times> real \<times> real \<times> real" where
  "Geodetic_TileBounds this tx ty zoom =
     (let res = 180 / 256 / 2 powr (real_of_int zoom)
      in (tx * 256 * res - 180, ty * 256 * res - 90,
          (tx + 1) * 256 * res - 180, (ty + 1) * 256 * res - 90))"

section \<open>Properties\<close>

declare ZoomForPixelSize_loop.simps [simp del]

declare excess_bits.simps [simp del]

lemma two_powr_nat: "0 \<le> zoom \<Longrightarrow> 2 powr (real_of_int zoom) = 2 ^ nat zoom"
  by (simp add: powr_real_of_int)

lemma trunc_of_int: "trunc (of_int n) = n"
  by (simp add: trunc_def)

lemma float64_to_int64_of_int:
  "in_int64 n \<Longrightarrow> float64_to_int64 (of_int n) = Some (word_of_int n)"
  by (simp add: float64_to_int64_def trunc_of_int)

lemma float64_to_int64_out_of_range:
  "\<not> in_int64 n \<Longrightarrow> float64_to_int64 (of_int n) = None"
  by (simp add: float64_to_int64_def trunc_of_int)


lemma round_f64_int_exact: "\<bar>n\<bar> \<le> 2 ^ 53 \<Longrightarrow> round_f64_int n = n"
  by (simp add: round_f64_int_def)

lemma f64_of_int_exact: "\<bar>n\<bar> \<le> 2 ^ 53 \<Longrightarrow> f64_of_int n = of_int n"
  by (simp add: f64_of_int_def round_f64_int_exact)

lemma f64_of_int_256: "f64_of_int 256 = 256"
  using f64_of_int_exact [of 256] by simp




lemma in_int64_numeral_5: "in_int64 5"
  by (simp add: in_int64_def)

lemma in_int64_numeral_1: "in_int64 1"
  by (simp add: in_int64_def)

subsection \<open>Resolution\<close>

lemma two_powr_Suc: "2 powr (real_of_int zoom + 1) = 2 * 2 powr (real_of_int zoom)"
  by (simp add: powr_add)

text \<open>
  C5. In both profiles the resolution of zoom level \<open>zoom + 1\<close> is exactly half the
  resolution of level \<open>zoom\<close>, for every zoom level from 0 upwards (the tested range
  0..20 included).
\<close>

theorem Resolution_halves:
  "0 \<le> zoom \<Longrightarrow>
     Mercator_Resolution (NewGlobalMercator ts) (zoom + 1)
       = Mercator_Resolution (NewGlobalMercator ts) zoom / 2
   \<and> Geodetic_Resolution (NewGlobalGeodetic n) (zoom + 1)
       = Geodetic_Resolution (NewGlobalGeodetic n) zoom / 2"
  by (simp add: Mercator_Resolution_def Geodetic_Resolution_def two_powr_Suc)

theorem Resolution_halves_witness:
  "(0::int) \<le> 20 \<and>
   Mercator_Resolution (NewGlobalMercator 256) (20 + 1)
       = Mercator_Resolution (NewGlobalMercator 256) 20 / 2
   \<and> Geodetic_Resolution (NewGlobalGeodetic 256) (20 + 1)
       = Geodetic_Resolution (NewGlobalGeodetic 256) 20 / 2"
  using Resolution_halves [of 20 256 256] by simp

subsection \<open>Meters and pixels\<close>

lemma Mercator_Resolution_nonzero:
  "ts \<noteq> 0 \<Longrightarrow> Mercator_Resolution (NewGlobalMercator ts) zoom \<noteq> 0"
  by (simp add: Mercator_Resolution_def NewGlobalMercator_def)

text \<open>
  C4. For a Mercator profile (tile size positive, the invariant of the data model),
  every zoom level from 0 upwards and every pixel pair \<open>(px, py)\<close>, feeding the result
  of \<^verbatim>\<open>PixelsToMeters\<close> to \<^verbatim>\<open>MetersToPixels\<close> at the same zoom gives back
  \<open>(px, py)\<close>, exactly, over the reals.
\<close>

theorem MetersToPixels_PixelsToMeters:
  assumes "0 < ts" and "0 \<le> zoom"
  shows "(case PixelsToMeters (NewGlobalMercator ts) px py zoom of
            (mx, my) \<Rightarrow> MetersToPixels (NewGlobalMercator ts) mx my zoom) = (px, py)"
proof -
  have "Mercator_Resolution (NewGlobalMercator ts) zoom \<noteq> 0"
    using assms(1) by (simp add: Mercator_Resolution_nonzero)
  then show ?thesis
    by (simp add: PixelsToMeters_def MetersToPixels_def Let_def)
qed

theorem MetersToPixels_PixelsToMeters_witness:
  "(0::real) < 256 \<and> (0::int) \<le> 3 \<and>
   (case PixelsToMeters (NewGlobalMercator 256) 100 200 3 of
            (mx, my) \<Rightarrow> MetersToPixels (NewGlobalMercator 256) mx my 3) = (100, 200)"
  using MetersToPixels_PixelsToMeters [of 256 3 100 200] by simp

subsection \<open>Latitude/longitude and meters\<close>

lemma originShift_nonzero: "originShift (NewGlobalMercator ts) \<noteq> 0"
  by (simp add: NewGlobalMercator_def)

text \<open>
  C3. For a latitude strictly between -85 and 85 degrees and a longitude strictly
  between -180 and 180 degrees, \<^verbatim>\<open>MetersToLatLon\<close> applied to the result of
  \<^verbatim>\<open>LatLonToMeters\<close> gives back \<open>(lat, lon)\<close>, exactly, over the reals.
\<close>

theorem MetersToLatLon_LatLonToMeters:
  assumes "- 85 < lat" and "lat < 85" and "- 180 < lon" and "lon < 180"
  shows "(case LatLonToMeters (NewGlobalMercator ts) lat lon of
            (mx, my) \<Rightarrow> MetersToLatLon (NewGlobalMercator ts) mx my) = (lat, lon)"
proof -
  define s where "s = originShift (NewGlobalMercator ts)"
  define t where "t = (90 + lat) * pi / 360"
  have s0: "s \<noteq> 0" unfolding s_def by (rule originShift_nonzero)
  have t_lo: "0 < t" using assms(1) by (simp add: t_def)
  have "(90 + lat) * pi < 180 * pi" using assms(2) by simp
  then have t_hi: "t < pi / 2" by (simp add: t_def)
  have tan_pos: "0 < tan t" using t_lo t_hi by (rule tan_gt_zero)
  have lon_eq: "lon * s / 180 / s * 180 = lon" using s0 by simp
  have "ln (tan t) / (pi / 180) * s / 180 / s * 180 * pi / 180 = ln (tan t)"
    using s0 by simp
  then have "arctan (exp (ln (tan t) / (pi / 180) * s / 180 / s * 180 * pi / 180)) = arctan (tan t)"
    using tan_pos by simp
  also have "\<dots> = t" using t_lo t_hi by (intro arctan_tan) simp_all
  finally have arc: "arctan (exp (ln (tan t) / (pi / 180) * s / 180 / s * 180 * pi / 180)) = t" .
  have "180 / pi * (2 * t - pi / 2) = lat"
    by (simp add: t_def field_simps)
  then have lat_eq:
    "180 / pi * (2 * arctan (exp (ln (tan t) / (pi / 180) * s / 180 / s * 180 * pi / 180)) - pi / 2) = lat"
    by (simp only: arc)
  show ?thesis
    unfolding LatLonToMeters_def MetersToLatLon_def Let_def prod.case s_def [symmetric] t_def [symmetric]
    using lat_eq lon_eq by simp
qed

theorem MetersToLatLon_LatLonToMeters_witness:
  "(- 85 :: real) < 51.5 \<and> (51.5 :: real) < 85 \<and> (- 180 :: real) < - 0.25 \<and> (- 0.25 :: real) < 180 \<and>
   (case LatLonToMeters (NewGlobalMercator 256) 51.5 (- 0.25) of
            (mx, my) \<Rightarrow> MetersToLatLon (NewGlobalMercator 256) mx my) = (51.5, - 0.25)"
  using MetersToLatLon_LatLonToMeters [of "51.5" "- 0.25" 256] by simp

subsection \<open>The zoom level for a pixel size\<close>

text \<open>Bounds on \<^term>\<open>pi\<close> good enough to compare resolutions with round numbers.\<close>

lemma pi_ge_3: "3 \<le> pi"
proof -
  have "sin (pi / 6) \<le> pi / 6" by (rule sin_x_le_x) simp
  then show ?thesis by (simp add: sin_30)
qed

lemma Resolution_256_0: "Mercator_Resolution (NewGlobalMercator 256) 0 = pi * 6378137 / 128"
  by (simp add: Mercator_Resolution_def NewGlobalMercator_def)

lemma Resolution_256_1: "Mercator_Resolution (NewGlobalMercator 256) 1 = pi * 6378137 / 256"
  by (simp add: Mercator_Resolution_def NewGlobalMercator_def)

lemma Resolution_256_2: "Mercator_Resolution (NewGlobalMercator 256) 2 = pi * 6378137 / 512"
  by (simp add: Mercator_Resolution_def NewGlobalMercator_def)

lemma Resolution_256_0_ge: "50000 \<le> Mercator_Resolution (NewGlobalMercator 256) 0"
  using pi_ge_3 by (simp add: Resolution_256_0)

lemma Resolution_256_1_ge: "50000 \<le> Mercator_Resolution (NewGlobalMercator 256) 1"
  using pi_ge_3 by (simp add: Resolution_256_1)

lemma Resolution_256_2_less: "Mercator_Resolution (NewGlobalMercator 256) 2 < 50000"
  using pi_less_4 by (simp add: Resolution_256_2)

lemma ZoomForPixelSize_loop_first_crossing:
  assumes "j \<le> i" and "i < 30" and "pixelSize > Mercator_Resolution this i"
    and "\<forall>k. j \<le> k \<and> k < i \<longrightarrow> \<not> pixelSize > Mercator_Resolution this k"
  shows "ZoomForPixelSize_loop this pixelSize j = (if i \<noteq> 0 then Some 0 else Some (i - 1))"
  using assms
proof (induction this pixelSize j rule: ZoomForPixelSize_loop.induct)
  case (1 this pixelSize j)
  show ?case
  proof (cases "j = i")
    case True
    then show ?thesis
      using "1.prems" by (simp add: ZoomForPixelSize_loop.simps [of this pixelSize i])
  next
    case False
    then have lt: "j < i" using "1.prems"(1) by simp
    then have no: "\<not> pixelSize > Mercator_Resolution this j" using "1.prems"(4) by simp
    have j30: "j < 30" using lt "1.prems"(2) by simp
    have "ZoomForPixelSize_loop this pixelSize (j + 1) = (if i \<noteq> 0 then Some 0 else Some (i - 1))"
      using "1.IH" [OF j30 no] lt "1.prems" by simp
    then show ?thesis
      using no j30 by (simp add: ZoomForPixelSize_loop.simps [of this pixelSize j])
  qed
qed

text \<open>
  C2. Let \<open>i\<close> be the least zoom in 0..29 with \<open>pixelSize > Resolution i\<close>. Then
  \<^verbatim>\<open>ZoomForPixelSize\<close> returns \<open>i - 1\<close>, that is -1, when \<open>i\<close> is 0, and returns 0
  when \<open>i\<close> is not 0.
\<close>

theorem ZoomForPixelSize_first_crossing:
  assumes "0 \<le> i" and "i < 30" and "pixelSize > Mercator_Resolution this i"
    and "\<forall>k. 0 \<le> k \<and> k < i \<longrightarrow> \<not> pixelSize > Mercator_Resolution this k"
  shows "ZoomForPixelSize this pixelSize = (if i = 0 then Some (i - 1) else Some 0)"
  using ZoomForPixelSize_loop_first_crossing [OF assms] by (simp add: ZoomForPixelSize_def)

lemma no_crossing_below_2:
  "\<forall>k. 0 \<le> k \<and> k < 2 \<longrightarrow> \<not> 50000 > Mercator_Resolution (NewGlobalMercator 256) k"
proof (intro allI impI)
  fix k :: int
  assume "0 \<le> k \<and> k < 2"
  then have "k = 0 \<or> k = 1" by auto
  then show "\<not> 50000 > Mercator_Resolution (NewGlobalMercator 256) k"
    using Resolution_256_0_ge Resolution_256_1_ge by auto
qed

theorem ZoomForPixelSize_first_crossing_witness:
  "(0::int) \<le> 2 \<and> (2::int) < 30 \<and> 50000 > Mercator_Resolution (NewGlobalMercator 256) 2
   \<and> \<not> 50000 > Mercator_Resolution (NewGlobalMercator 256) 0
   \<and> \<not> 50000 > Mercator_Resolution (NewGlobalMercator 256) 1
   \<and> ZoomForPixelSize (NewGlobalMercator 256) 50000 = Some 0"
  using ZoomForPixelSize_first_crossing
      [where i = 2 and pixelSize = 50000 and this = "NewGlobalMercator 256"]
    Resolution_256_0_ge Resolution_256_1_ge Resolution_256_2_less no_crossing_below_2 by simp

text \<open>
  C1 says that \<^verbatim>\<open>ZoomForPixelSize\<close> returns the greatest zoom in 0..29 whose resolution
  is still at least the pixel size. With tile size 256 and pixel size 50000 the
  resolution of zoom 1 is at least 50000 and that of zoom 2 is below it, so that zoom
  is 1; the code returns 0.
\<close>

theorem ZoomForPixelSize_not_maximal:
  "ZoomForPixelSize (NewGlobalMercator 256) 50000 = Some 0
   \<and> Mercator_Resolution (NewGlobalMercator 256) 1 \<ge> 50000
   \<and> Mercator_Resolution (NewGlobalMercator 256) 2 < 50000"
proof -
  have "ZoomForPixelSize (NewGlobalMercator 256) 50000 = Some 0"
    using Resolution_256_0_ge Resolution_256_1_ge Resolution_256_2_less
    by (simp add: ZoomForPixelSize_def ZoomForPixelSize_loop.simps [of _ _ 0]
        ZoomForPixelSize_loop.simps [of _ _ 1] ZoomForPixelSize_loop.simps [of _ _ 2])
  then show ?thesis using Resolution_256_1_ge Resolution_256_2_less by simp
qed

subsection \<open>The geodetic profile\<close>

text \<open>
  C7. \<^verbatim>\<open>Resolution\<close> and \<^verbatim>\<open>TileBounds\<close> of the geodetic profile do not depend on the
  configured tile size: two profiles built with any positive tile sizes return the same
  results at every zoom from 0 upwards and every tile index, and the resolution is
  \<open>180 / 256 / 2 ^ zoom\<close>.
\<close>

theorem Geodetic_independent_of_tileSize:
  assumes "0 < t1" and "0 < t2" and "0 \<le> zoom"
  shows "Geodetic_Resolution (NewGlobalGeodetic t1) zoom = Geodetic_Resolution (NewGlobalGeodetic t2) zoom
   \<and> Geodetic_TileBounds (NewGlobalGeodetic t1) tx ty zoom
       = Geodetic_TileBounds (NewGlobalGeodetic t2) tx ty zoom
   \<and> Geodetic_Resolution (NewGlobalGeodetic t1) zoom = 180 / 256 / 2 ^ nat zoom"
  using assms(3) by (simp add: Geodetic_Resolution_def Geodetic_TileBounds_def two_powr_nat)

theorem Geodetic_independent_of_tileSize_witness:
  "(0::int) < 256 \<and> (0::int) < 512 \<and> (0::int) \<le> 2 \<and>
   Geodetic_Resolution (NewGlobalGeodetic 256) 2 = Geodetic_Resolution (NewGlobalGeodetic 512) 2
   \<and> Geodetic_TileBounds (NewGlobalGeodetic 256) 5 1 2
       = Geodetic_TileBounds (NewGlobalGeodetic 512) 5 1 2
   \<and> Geodetic_Resolution (NewGlobalGeodetic 256) 2 = 180 / 256 / 2 ^ nat 2"
  using Geodetic_independent_of_tileSize [of 256 512 2 5 1] by simp

lemma ceiling_1317: "\<lceil>1317.141 / (256::real)\<rceil> = 6"
  by (simp add: ceiling_eq_iff)

lemma ceiling_510: "\<lceil>510.625 / (256::real)\<rceil> = 2"
  by (simp add: ceiling_eq_iff)

lemma Geodetic_PixelsToTile_test:
  "Geodetic_PixelsToTile (NewGlobalGeodetic 256) 1317.141 510.625 = (Some 5, Some 1)"
  using float64_to_int64_of_int [OF in_int64_numeral_5] float64_to_int64_of_int [OF in_int64_numeral_1]
    f64_of_int_exact [of 5] f64_of_int_exact [of 1]
  by (simp add: Geodetic_PixelsToTile_def NewGlobalGeodetic_def f64_of_int_256
      ceiling_1317 ceiling_510)

lemma LatLonToPixels_test_px:
  "\<bar>fst (LatLonToPixels this 51.5287718 (- 0.2416819) 2) - 1317.141\<bar> < 0.001"
  by (simp add: LatLonToPixels_def Let_def)

lemma LatLonToPixels_test_py:
  "\<bar>snd (LatLonToPixels this 51.5287718 (- 0.2416819) 2) - 510.625\<bar> < 0.001"
  by (simp add: LatLonToPixels_def Let_def)

text \<open>
  C6. \<^verbatim>\<open>LatLonToPixels\<close> returns \<open>px = (180 + lat) / res\<close> and \<open>py = (90 + lon) / res\<close>
  with \<open>res = 180 / 256 / 2 ^ zoom\<close>. At \<open>(51.5287718, -0.2416819)\<close> and zoom 2 it
  returns \<open>px\<close> within 0.001 of 1317.141 and \<open>py\<close> within 0.001 of 510.625, and
  \<^verbatim>\<open>PixelsToTile\<close> with tile size 256 sends \<open>(1317.141, 510.625)\<close> to the tile
  \<open>(5, 1)\<close>.
\<close>

theorem LatLonToPixels_formula:
  "(0 \<le> zoom \<longrightarrow>
      LatLonToPixels this lat lon zoom
        = ((180 + lat) / (180 / 256 / 2 ^ nat zoom), (90 + lon) / (180 / 256 / 2 ^ nat zoom)))
   \<and> \<bar>fst (LatLonToPixels (NewGlobalGeodetic 256) 51.5287718 (- 0.2416819) 2) - 1317.141\<bar> < 0.001
   \<and> \<bar>snd (LatLonToPixels (NewGlobalGeodetic 256) 51.5287718 (- 0.2416819) 2) - 510.625\<bar> < 0.001
   \<and> Geodetic_PixelsToTile (NewGlobalGeodetic 256) 1317.141 510.625 = (Some 5, Some 1)"
proof -
  have "0 \<le> zoom \<longrightarrow>
      LatLonToPixels this lat lon zoom
        = ((180 + lat) / (180 / 256 / 2 ^ nat zoom), (90 + lon) / (180 / 256 / 2 ^ nat zoom))"
    by (simp add: LatLonToPixels_def Let_def two_powr_nat)
  then show ?thesis
    using LatLonToPixels_test_px LatLonToPixels_test_py Geodetic_PixelsToTile_test by blast
qed

theorem LatLonToPixels_formula_witness:
  "(0::int) \<le> 2 \<and>
   LatLonToPixels (NewGlobalGeodetic 256) 51.5287718 (- 0.2416819) 2
     = ((180 + 51.5287718) / (180 / 256 / 2 ^ nat 2), (90 + (- 0.2416819)) / (180 / 256 / 2 ^ nat 2))"
proof -
  have h: "(0::int) \<le> 2" by simp
  have "(0::int) \<le> 2 \<longrightarrow>
      LatLonToPixels (NewGlobalGeodetic 256) 51.5287718 (- 0.2416819) 2
        = ((180 + 51.5287718) / (180 / 256 / 2 ^ nat 2), (90 + (- 0.2416819)) / (180 / 256 / 2 ^ nat 2))"
    using LatLonToPixels_formula
      [where zoom = 2 and this = "NewGlobalGeodetic 256" and lat = "51.5287718" and lon = "- 0.2416819"]
    by (rule conjunct1)
  with h show ?thesis by blast
qed

subsection \<open>Pixels to tiles\<close>















subsection \<open>Pixels to raster\<close>

lemma trunc_nonneg: "0 \<le> x \<Longrightarrow> trunc x = \<lfloor>x\<rfloor>"
  by (simp add: trunc_def)

lemma float64_to_uint_floor:
  assumes "0 \<le> x" and "x < 2 ^ 64"
  shows "float64_to_uint x = Some (word_of_int \<lfloor>x\<rfloor>)"
proof -
  have "\<lfloor>x\<rfloor> < 2 ^ 64" using assms(2) by (simp add: floor_less_iff)
  moreover have "0 \<le> \<lfloor>x\<rfloor>" using assms(1) by simp
  ultimately show ?thesis
    using assms(1) by (simp add: float64_to_uint_def trunc_nonneg in_uint_def)
qed

lemma unat_uint_of_zoom:
  "0 \<le> zoom \<Longrightarrow> zoom < 2 ^ 63 \<Longrightarrow> unat (word_of_int zoom :: uint) = nat zoom"
  by (simp add: unat_eq_nat_uint uint_word_of_int)

lemma uint_push_bit_uint:
  "uint (push_bit n (word_of_int m :: uint)) = (m * 2 ^ n) mod 2 ^ 64"
proof -
  have "uint (push_bit n (word_of_int m :: uint)) = take_bit 64 (push_bit n (uint (word_of_int m :: uint)))"
    by (simp add: unsigned_push_bit_eq)
  also have "\<dots> = ((m mod 2 ^ 64) * 2 ^ n) mod 2 ^ 64"
    by (simp add: uint_word_of_int take_bit_eq_mod push_bit_eq_mult)
  also have "\<dots> = (m * 2 ^ n) mod 2 ^ 64"
    by (simp add: mod_mult_left_eq)
  finally show ?thesis .
qed

lemma unat_push_bit_uint:
  "real (unat (push_bit n (word_of_int m :: uint))) = real_of_int ((m * 2 ^ n) mod 2 ^ 64)"
proof -
  have "real (unat (push_bit n (word_of_int m :: uint)))
          = real_of_int (uint (push_bit n (word_of_int m :: uint)))"
    by simp
  then show ?thesis by (simp only: uint_push_bit_uint)
qed

text \<open>
  C9, as the code has it. For a Mercator profile with \<open>0 < tileSize < 2 ^ 64\<close> and a
  zoom with \<open>0 \<le> zoom < 2 ^ 63\<close>, \<^verbatim>\<open>PixelsToRaster\<close> returns \<open>(px, mapSize - py)\<close>
  where \<open>mapSize = (floor tileSize * 2 ^ zoom) mod 2 ^ 64\<close>: \<^verbatim>\<open>uint(tileSize)\<close> drops
  the fraction and the shift keeps 64 bits. Where the tile size is a whole number and
  \<open>tileSize * 2 ^ zoom < 2 ^ 64\<close>, \<open>mapSize = tileSize * 2 ^ zoom\<close>. X is unchanged.
\<close>

theorem PixelsToRaster_mapSize:
  assumes "0 < ts" and "ts < 2 ^ 64" and "0 \<le> zoom" and "zoom < 2 ^ 63"
  shows "PixelsToRaster (NewGlobalMercator ts) px py zoom
           = (px, Some (real_of_int ((\<lfloor>ts\<rfloor> * 2 ^ nat zoom) mod 2 ^ 64) - py))
       \<and> (ts = of_int \<lfloor>ts\<rfloor> \<and> ts * 2 ^ nat zoom < 2 ^ 64 \<longrightarrow>
            PixelsToRaster (NewGlobalMercator ts) px py zoom = (px, Some (ts * 2 ^ nat zoom - py)))"
proof -
  have conv: "float64_to_uint ts = Some (word_of_int \<lfloor>ts\<rfloor>)"
    using assms(1,2) by (intro float64_to_uint_floor) simp_all
  have shift: "unat (word_of_int zoom :: uint) = nat zoom"
    using assms(3,4) by (rule unat_uint_of_zoom)
  have "PixelsToRaster (NewGlobalMercator ts) px py zoom
           = (px, Some (real (unat (push_bit (nat zoom) (word_of_int \<lfloor>ts\<rfloor> :: uint))) - py))"
    by (simp add: PixelsToRaster_def NewGlobalMercator_def conv shift Let_def del: of_nat_unat)
  then have general: "PixelsToRaster (NewGlobalMercator ts) px py zoom
           = (px, Some (real_of_int ((\<lfloor>ts\<rfloor> * 2 ^ nat zoom) mod 2 ^ 64) - py))"
    by (simp only: unat_push_bit_uint)
  have "real_of_int ((\<lfloor>ts\<rfloor> * 2 ^ nat zoom) mod 2 ^ 64) = ts * 2 ^ nat zoom"
    if whole: "ts = of_int \<lfloor>ts\<rfloor>" and small: "ts * 2 ^ nat zoom < 2 ^ 64"
  proof -
    have eq: "real_of_int (\<lfloor>ts\<rfloor> * 2 ^ nat zoom) = ts * 2 ^ nat zoom"
      by (simp add: whole [symmetric])
    have "real_of_int (\<lfloor>ts\<rfloor> * 2 ^ nat zoom) < real_of_int (2 ^ 64)"
      unfolding eq using small by simp
    then have lt: "\<lfloor>ts\<rfloor> * 2 ^ nat zoom < 2 ^ 64"
      by (simp only: of_int_less_iff)
    have "0 \<le> \<lfloor>ts\<rfloor>" using assms(1) by simp
    then have ge: "0 \<le> \<lfloor>ts\<rfloor> * 2 ^ nat zoom" by simp
    have "(\<lfloor>ts\<rfloor> * 2 ^ nat zoom) mod 2 ^ 64 = \<lfloor>ts\<rfloor> * 2 ^ nat zoom"
      using ge lt by (rule mod_pos_pos_trivial)
    then have "real_of_int ((\<lfloor>ts\<rfloor> * 2 ^ nat zoom) mod 2 ^ 64) = real_of_int (\<lfloor>ts\<rfloor> * 2 ^ nat zoom)"
      by (rule arg_cong)
    then show ?thesis by (simp only: eq)
  qed
  then show ?thesis using general by (simp del: of_int_mult of_int_power)
qed

theorem PixelsToRaster_mapSize_witness:
  "(0::real) < 256 \<and> (256::real) < 2 ^ 64 \<and> (0::int) \<le> 2 \<and> (2::int) < 2 ^ 63
   \<and> (256::real) = of_int \<lfloor>256::real\<rfloor> \<and> (256::real) * 2 ^ nat 2 < 2 ^ 64
   \<and> PixelsToRaster (NewGlobalMercator 256) 10 20 2 = (10, Some (256 * 2 ^ nat 2 - 20))"
  using PixelsToRaster_mapSize [where ts = 256 and zoom = 2 and px = 10 and py = 20]
  by simp

text \<open>
  C9 as stated, with \<open>mapSize = tileSize * 2 ^ zoom\<close> for every positive tile size and
  every zoom from 0 upwards, fails where the shift overflows (tile size 256, zoom 56:
  the map size is 0, not \<open>2 ^ 64\<close>) and where the tile size has a fraction (tile size
  1/2, zoom 0: the map size is 0, not 1/2).
\<close>

theorem PixelsToRaster_counterexample:
  "PixelsToRaster (NewGlobalMercator 256) 0 0 56 \<noteq> (0, Some (256 * 2 ^ 56 - 0))
   \<and> PixelsToRaster (NewGlobalMercator (1 / 2)) 0 0 0 \<noteq> (0, Some (1 / 2 * 2 ^ 0 - 0))"
proof -
  have "float64_to_uint 256 = Some 256"
    using float64_to_uint_floor [of 256] by simp
  then have a: "PixelsToRaster (NewGlobalMercator 256) 0 0 56 = (0, Some 0)"
    by (simp add: PixelsToRaster_def NewGlobalMercator_def)
  have "float64_to_uint (1 / 2) = Some 0"
    using float64_to_uint_floor [of "1 / 2"] by simp
  then have b: "PixelsToRaster (NewGlobalMercator (1 / 2)) 0 0 0 = (0, Some 0)"
    by (simp add: PixelsToRaster_def NewGlobalMercator_def)
  show ?thesis by (simp add: a b)
qed

end
